theory Spec2Isabelle
  imports Main
begin

section \<open>JavaScript strings\<close>

text \<open>
  A JavaScript string is modelled as a \<^typ>\<open>string\<close>, one \<^typ>\<open>char\<close> per code unit.
\<close>

definition startsWith :: "string \<Rightarrow> string \<Rightarrow> bool" where
  "startsWith s p = (take (length p) s = p)"

text \<open>\<^verbatim>\<open>s.includes(sub)\<close>: \<open>sub\<close> occurs somewhere in \<open>s\<close>.\<close>

fun js_includes :: "string \<Rightarrow> string \<Rightarrow> bool" where
  "js_includes [] sub = (sub = [])"
| "js_includes (c # cs) sub = (startsWith (c # cs) sub \<or> js_includes cs sub)"

text \<open>An exception of the JavaScript run time, with its message.\<close>

datatype JsError = TypeError string | URIError string | SyntaxError string

section \<open>Path normalisation (utils.ts and ParameterExtractor)\<close>

text \<open>\<^verbatim>\<open>.replace(/\/+/g, '/')\<close>: every maximal run of slashes becomes one slash.\<close>

fun collapse_slashes :: "string \<Rightarrow> string" where
  "collapse_slashes [] = []"
| "collapse_slashes [c] = [c]"
| "collapse_slashes (c # d # cs) =
     (if c = CHR ''/'' \<and> d = CHR ''/'' then collapse_slashes (d # cs)
      else c # collapse_slashes (d # cs))"

text \<open>\<^verbatim>\<open>.replace(/\/$/, '')\<close>: one slash at the very end of the string is removed.\<close>

definition strip_trailing_slash :: "string \<Rightarrow> string" where
  "strip_trailing_slash s = (if s \<noteq> [] \<and> last s = CHR ''/'' then butlast s else s)"

text \<open>\<^verbatim>\<open>.replace(/^\//, '/')\<close>: a slash at the very start is replaced by a slash.\<close>

definition replace_leading_slash :: "string \<Rightarrow> string" where
  "replace_leading_slash s =
     (case s of [] \<Rightarrow> [] | c # cs \<Rightarrow> if c = CHR ''/'' then CHR ''/'' # cs else c # cs)"

text \<open>\<^verbatim>\<open>normalizePath\<close> of utils.ts.\<close>

definition normalizePath :: "string \<Rightarrow> string" where
  "normalizePath path = replace_leading_slash (strip_trailing_slash (collapse_slashes path))"

text \<open>The private \<^verbatim>\<open>ParameterExtractor.normalizePath\<close>, the same three replacements.\<close>

definition ParameterExtractor_normalizePath :: "string \<Rightarrow> string" where
  "ParameterExtractor_normalizePath path =
     replace_leading_slash (strip_trailing_slash (collapse_slashes path))"

section \<open>Route classification\<close>

datatype RouteType = simple | singleParam | variableSegments | nested

text \<open>
  The captured texts of the successive matches of \<^verbatim>\<open>/\[([^\]]+)\]/g\<close>: at an opening
  bracket the class takes every character up to the next closing bracket; the match
  succeeds when that run is not empty and a closing bracket follows, and the scan goes on
  behind it. Otherwise the scan goes on one character further.
\<close>

function bracket_matches :: "string \<Rightarrow> string list" where
  "bracket_matches [] = []"
| "bracket_matches (c # cs) =
     (if c = CHR ''['' then
        (let body = takeWhile (\<lambda>x. x \<noteq> CHR '']'') cs;
             rest = dropWhile (\<lambda>x. x \<noteq> CHR '']'') cs
         in if body \<noteq> [] \<and> rest \<noteq> [] then body # bracket_matches (tl rest)
            else bracket_matches cs)
      else bracket_matches cs)"
  by pat_completeness auto
termination
proof (relation "measure length")
  show "wf (measure length)" by simp
next
  fix c :: char and cs body rest :: string
  assume "rest = dropWhile (\<lambda>x. x \<noteq> CHR '']'') cs"
  then have "length rest \<le> length cs"
    by (simp add: length_dropWhile_le)
  then have "length (tl rest) < Suc (length cs)"
    by simp
  then show "(tl rest, c # cs) \<in> measure length" by simp
qed simp_all

text \<open>\<^verbatim>\<open>RouteScanner.determineRouteType\<close>.\<close>

definition RouteScanner_determineRouteType :: "string \<Rightarrow> RouteType" where
  "RouteScanner_determineRouteType routePath =
     (if js_includes routePath ''[...'' then variableSegments
      else if js_includes routePath ''['' \<and> js_includes routePath '']'' then
        (let paramCount = length (bracket_matches routePath)
         in if paramCount = 1 then singleParam else nested)
      else simple)"

text \<open>\<^verbatim>\<open>determineRouteType\<close> of utils.ts; \<^verbatim>\<open>paramCount\<close> counts the opening brackets.\<close>

definition determineRouteType :: "string \<Rightarrow> RouteType" where
  "determineRouteType routePath =
     (let hasParams = js_includes routePath ''['';
          hasVariableSegments = js_includes routePath ''[...'';
          paramCount = length (filter (\<lambda>c. c = CHR ''['') routePath)
      in if \<not> hasParams then simple
         else if hasVariableSegments then variableSegments
         else if paramCount = 1 then singleParam
         else nested)"

text \<open>The \<^verbatim>\<open>type\<close> field that \<^verbatim>\<open>Router.addRoute\<close> computes for a manually added route.\<close>

definition addRoute_type :: "string \<Rightarrow> RouteType" where
  "addRoute_type path =
     (if js_includes path ''[''
      then (if js_includes path ''[...'' then variableSegments else singleParam)
      else simple)"

section \<open>Parameter validation (ParameterExtractor.validateParameters)\<close>

text \<open>A value of \<^verbatim>\<open>RouteParams\<close> is a string or an array of strings.\<close>

datatype ParamValue = Str string | Arr "string list"

text \<open>
  A \<^verbatim>\<open>RouteParams\<close> object is given by its own properties. It is an ordinary object, as
  an object literal is: a name that is not an own property is looked up in
  \<^verbatim>\<open>Object.prototype\<close>.
\<close>

type_synonym RouteParams = "string \<rightharpoonup> ParamValue"

text \<open>The names of the properties of \<^verbatim>\<open>Object.prototype\<close>, which every ordinary object inherits.\<close>

definition objectPrototypeNames :: "string list" where
  "objectPrototypeNames =
     [''constructor'', ''__defineGetter__'', ''__defineSetter__'', ''hasOwnProperty'',
      ''__lookupGetter__'', ''__lookupSetter__'', ''isPrototypeOf'', ''propertyIsEnumerable'',
      ''toString'', ''valueOf'', ''__proto__'', ''toLocaleString'']"

text \<open>
  What \<^verbatim>\<open>params[paramName]\<close> yields when it is not \<^verbatim>\<open>undefined\<close>: the own property, or
  the property of that name inherited from \<^verbatim>\<open>Object.prototype\<close> (a function, or the
  prototype itself for \<^verbatim>\<open>__proto__\<close>), which is neither \<^verbatim>\<open>null\<close> nor a string.
\<close>

datatype ReadValue = Own ParamValue | Inherited string

text \<open>The read \<^verbatim>\<open>params[paramName]\<close>; \<^const>\<open>None\<close> is \<^verbatim>\<open>undefined\<close>.\<close>

definition read_property :: "RouteParams \<Rightarrow> string \<Rightarrow> ReadValue option" where
  "read_property params name =
     (case params name of
        Some v \<Rightarrow> Some (Own v)
      | None \<Rightarrow> if name \<in> set objectPrototypeNames then Some (Inherited name) else None)"

text \<open>
  A value that a function throws, as far as the \<^verbatim>\<open>catch\<close> block uses it: the string
  that the template literal converts it to, or the fact that the conversion itself throws
  a \<^verbatim>\<open>TypeError\<close>, as it does for a symbol and for an object without a usable
  \<^verbatim>\<open>toString\<close>.
\<close>

datatype Thrown = Printable string | Unprintable

text \<open>
  A call of a user-supplied function returns a value or throws. A validator is
  represented by the result of its call for each value.
\<close>

datatype 'a call_result = Returns 'a | Throws Thrown

text \<open>
  \<^verbatim>\<open>ParamValidation\<close>. The interface declares \<^verbatim>\<open>pattern\<close>, \<^verbatim>\<open>validator\<close> and
  \<^verbatim>\<open>errorMessage\<close>, all optional. The regular expression is represented by the result
  of its \<^verbatim>\<open>test\<close> method on each string. The example configurations of the README also
  write a property \<^verbatim>\<open>required\<close>; the interface does not declare it, but a
  configuration object can carry it at run time, so the record keeps it as the field
  \<open>required\<close>.
\<close>

record ParamValidation =
  pattern :: "(string \<Rightarrow> bool) option"
  validator :: "(ReadValue \<Rightarrow> bool call_result) option"
  errorMessage :: "string option"
  required :: "bool option"

datatype ErrorType = pattern_error | validator_error | required_error

text \<open>\<^verbatim>\<open>ValidationError\<close>; \<open>errValue\<close> is \<^const>\<open>None\<close> for \<^verbatim>\<open>undefined\<close>.\<close>

record ValidationError =
  paramName :: string
  errValue :: "ReadValue option"
  message :: string
  errType :: ErrorType

text \<open>\<^verbatim>\<open>validation.errorMessage || dflt\<close>: a missing or empty message gives the default.\<close>

definition message_or :: "string option \<Rightarrow> string \<Rightarrow> string" where
  "message_or m dflt = (case m of None \<Rightarrow> dflt | Some t \<Rightarrow> if t = [] then dflt else t)"

text \<open>
  The errors pushed by the regular expression check of one loop iteration; the check
  runs when a pattern is declared and the value is a string.
\<close>

definition pattern_check :: "string \<Rightarrow> ParamValidation \<Rightarrow> ReadValue \<Rightarrow> ValidationError list" where
  "pattern_check name validation v =
     (case (pattern validation, v) of
        (Some test, Own (Str s)) \<Rightarrow>
          if \<not> test s then
            [\<lparr>paramName = name, errValue = Some v,
              message = message_or (errorMessage validation)
                (''Parameter '' @ [CHR 0x27] @ name @ [CHR 0x27] @ '' does not match required pattern''),
              errType = pattern_error\<rparr>]
          else []
      | _ \<Rightarrow> [])"

text \<open>
  The custom validator inside its \<^verbatim>\<open>try\<close>/\<^verbatim>\<open>catch\<close>: the errors pushed, or the
  \<^verbatim>\<open>TypeError\<close> that leaves the \<^verbatim>\<open>catch\<close> block when the thrown value cannot be
  converted to a string for the message.
\<close>

definition validator_check ::
  "string \<Rightarrow> ParamValidation \<Rightarrow> ReadValue \<Rightarrow> JsError + ValidationError list" where
  "validator_check name validation v =
     (case validator validation of
        None \<Rightarrow> Inr []
      | Some f \<Rightarrow>
          (case f v of
             Returns isValid \<Rightarrow>
               if \<not> isValid then
                 Inr [\<lparr>paramName = name, errValue = Some v,
                   message = message_or (errorMessage validation)
                     (''Parameter '' @ [CHR 0x27] @ name @ [CHR 0x27] @ '' failed custom validation''),
                   errType = validator_error\<rparr>]
               else Inr []
           | Throws (Printable e) \<Rightarrow>
               Inr [\<lparr>paramName = name, errValue = Some v,
                 message = ''Validation error for parameter '' @ [CHR 0x27] @ name @ [CHR 0x27] @ '': '' @ e,
                 errType = validator_error\<rparr>]
           | Throws Unprintable \<Rightarrow> Inl (TypeError ''Cannot convert the thrown value to a string'')))"

text \<open>
  The body of the loop for one entry of the configuration: the errors it pushes, or the
  exception that leaves it.
\<close>

definition validate_entry ::
  "RouteParams \<Rightarrow> string \<times> ParamValidation \<Rightarrow> JsError + ValidationError list" where
  "validate_entry params entry =
     (case entry of (name, validation) \<Rightarrow>
        (case read_property params name of
           None \<Rightarrow>
             Inr [\<lparr>paramName = name, errValue = None,
               message = ''Parameter '' @ [CHR 0x27] @ name @ [CHR 0x27] @ '' is required'',
               errType = required_error\<rparr>]
         | Some v \<Rightarrow>
             (case validator_check name validation v of
                Inl e \<Rightarrow> Inl e
              | Inr validator_errors \<Rightarrow> Inr (pattern_check name validation v @ validator_errors))))"

text \<open>
  The loop over \<^verbatim>\<open>Object.entries(validationConfig)\<close>, with the array \<^verbatim>\<open>errors\<close> as
  accumulator. The configuration is given as the list of its entries. An exception ends
  the loop and the function.
\<close>

fun validate_loop ::
  "RouteParams \<Rightarrow> (string \<times> ParamValidation) list \<Rightarrow> ValidationError list
     \<Rightarrow> JsError + ValidationError list" where
  "validate_loop params [] errors = Inr errors"
| "validate_loop params (entry # rest) errors =
     (case validate_entry params entry of
        Inl e \<Rightarrow> Inl e
      | Inr pushed \<Rightarrow> validate_loop params rest (errors @ pushed))"

definition validateParameters ::
  "RouteParams \<Rightarrow> (string \<times> ParamValidation) list \<Rightarrow> JsError + ValidationError list" where
  "validateParameters params validationConfig = validate_loop params validationConfig []"

section \<open>Conversion to the pattern syntax of path-to-regexp\<close>

text \<open>
  \<^verbatim>\<open>.replace(/\/\*$/, '/:segments(.+)')\<close>: a slash and an asterisk at the very end of
  the string are replaced.
\<close>

definition replace_trailing_star :: "string \<Rightarrow> string" where
  "replace_trailing_star s =
     (if 2 \<le> length s \<and> drop (length s - 2) s = ''/*''
      then take (length s - 2) s @ ''/:segments(.+)'' else s)"

text \<open>
  \<^verbatim>\<open>.replace(/\[\.\.\.([^\]]+)\]/g, ':$1(.*)')\<close> for the opener \<^verbatim>\<open>[...\<close> and the tail
  \<^verbatim>\<open>(.*)\<close>, and \<^verbatim>\<open>.replace(/\[([^\]]+)\]/g, ':$1')\<close> for the opener \<^verbatim>\<open>[\<close> and the empty
  tail. At an occurrence of the opener the class takes every character up to the next
  closing bracket; when that run is not empty and a closing bracket follows, the
  occurrence is replaced by a colon, the run and the tail, and the scan goes on behind
  the closing bracket. Otherwise the character is kept and the scan goes on behind it.
\<close>

function replace_tokens :: "string \<Rightarrow> string \<Rightarrow> string \<Rightarrow> string" where
  "replace_tokens opener tail [] = []"
| "replace_tokens opener tail (c # cs) =
     (if startsWith (c # cs) opener then
        (let after = drop (length opener) (c # cs);
             body = takeWhile (\<lambda>x. x \<noteq> CHR '']'') after;
             rest = dropWhile (\<lambda>x. x \<noteq> CHR '']'') after
         in if body \<noteq> [] \<and> rest \<noteq> []
            then '':'' @ body @ tail @ replace_tokens opener tail (tl rest)
            else c # replace_tokens opener tail cs)
      else c # replace_tokens opener tail cs)"
  by pat_completeness auto
termination
proof (relation "measure (\<lambda>(opener, tail, s). length s)")
  show "wf (measure (\<lambda>(opener, tail, s). length s))" by simp
next
  fix opener tail :: string and c :: char and cs after body rest :: string
  assume "after = drop (length opener) (c # cs)"
    and "rest = dropWhile (\<lambda>x. x \<noteq> CHR '']'') after"
    and "body \<noteq> [] \<and> rest \<noteq> []"
  then have "length rest \<le> length (c # cs)" and "rest \<noteq> []"
    by (simp_all add: le_trans [OF length_dropWhile_le])
  then have "length (tl rest) < length (c # cs)"
    by (cases rest) simp_all
  then show "((opener, tail, tl rest), (opener, tail, c # cs))
      \<in> measure (\<lambda>(opener, tail, s). length s)"
    by simp
qed simp_all

text \<open>\<^verbatim>\<open>ParameterExtractor.convertToPathToRegexpPattern\<close>.\<close>

definition convertToPathToRegexpPattern :: "string \<Rightarrow> string" where
  "convertToPathToRegexpPattern routePattern =
     replace_tokens ''['' ''''
       (replace_tokens ''[...'' ''(.*)''
          (replace_trailing_star (ParameterExtractor_normalizePath routePattern)))"

section \<open>The router's registry (router.ts)\<close>

datatype HTTPMethod = GET | POST | PUT | DELETE | PATCH | HEAD | OPTIONS

text \<open>
  \<^verbatim>\<open>RouteInfo\<close>. The field \<^verbatim>\<open>params\<close> is the empty object wherever the router builds a
  \<^verbatim>\<open>RouteInfo\<close> and is left out.
\<close>

record RouteInfo =
  ri_pattern :: string
  ri_path :: string
  ri_type :: RouteType
  ri_parameters :: "string list"
  ri_filePath :: string
  ri_method :: HTTPMethod

record RegisteredRoute =
  rr_path :: string
  rr_filePath :: string
  rr_type :: RouteType
  rr_methods :: "HTTPMethod list"
  rr_parameters :: "string list"

text \<open>
  A route file handler is an object with an optional function per method. The functions
  are not called by the registry; the handler is represented by the methods it defines.
\<close>

type_synonym RouteFileHandler = "HTTPMethod \<Rightarrow> bool"

text \<open>
  One call \<^verbatim>\<open>this.app.on(method, routePath, callback)\<close>: the method, the path handed to
  Hono, and the route and handler that the callback closes over.
\<close>

record HonoRegistration =
  hr_method :: HTTPMethod
  hr_path :: string
  hr_route :: RouteInfo
  hr_handler :: RouteFileHandler

text \<open>
  The state of a \<^verbatim>\<open>Router\<close> that registration changes: the registrations made on the
  Hono application, in the order of the calls, and the array \<^verbatim>\<open>registeredRoutes\<close>.
\<close>

record Router =
  app :: "HonoRegistration list"
  registeredRoutes :: "RegisteredRoute list"

definition newRouter :: Router where
  "newRouter = \<lparr>app = [], registeredRoutes = []\<rparr>"

text \<open>
  \<^verbatim>\<open>RouteScanner.getRouteParameters\<close> (and its alias \<^verbatim>\<open>extractParameters\<close>): each match of
  \<^verbatim>\<open>/\[([^\]]+)\]/g\<close> without its brackets and without three leading dots. The match is
  the captured text between an opening and a closing bracket; the captured text has no
  closing bracket.
\<close>

definition strip_dots :: "string \<Rightarrow> string" where
  "strip_dots s = (if startsWith s ''...'' then drop 3 s else s)"

definition getRouteParameters :: "string \<Rightarrow> string list" where
  "getRouteParameters routePath =
     map (\<lambda>body. strip_dots (filter (\<lambda>c. c \<noteq> CHR ''['' \<and> c \<noteq> CHR '']'') body))
       (bracket_matches routePath)"

text \<open>\<^verbatim>\<open>Router.getSupportedMethods\<close>.\<close>

definition getSupportedMethods :: "RouteFileHandler \<Rightarrow> HTTPMethod list" where
  "getSupportedMethods handler = filter handler [GET, POST, PUT, DELETE, PATCH, HEAD, OPTIONS]"

text \<open>\<^verbatim>\<open>Router.convertToHonoPath\<close>.\<close>

definition convertToHonoPath :: "string \<Rightarrow> string" where
  "convertToHonoPath apiPath = convertToPathToRegexpPattern apiPath"

text \<open>
  \<^verbatim>\<open>Router.registerRouteMethod\<close>: one call of \<^verbatim>\<open>app.on\<close>, which appends a registration.
  The callback runs at request time only.
\<close>

definition registerRouteMethod :: "RouteInfo \<Rightarrow> HTTPMethod \<Rightarrow> RouteFileHandler \<Rightarrow> Router \<Rightarrow> Router" where
  "registerRouteMethod routeInfo method handler r =
     r\<lparr>app := app r @ [\<lparr>hr_method = method, hr_path = convertToHonoPath (ri_path routeInfo),
                          hr_route = routeInfo, hr_handler = handler\<rparr>]\<rparr>"

text \<open>The loop \<^verbatim>\<open>for (const method of methods) this.registerRouteMethod(...)\<close>.\<close>

fun registerRouteMethods :: "RouteInfo \<Rightarrow> HTTPMethod list \<Rightarrow> RouteFileHandler \<Rightarrow> Router \<Rightarrow> Router" where
  "registerRouteMethods routeInfo [] handler r = r"
| "registerRouteMethods routeInfo (method # methods) handler r =
     registerRouteMethods routeInfo methods handler (registerRouteMethod routeInfo method handler r)"

text \<open>
  \<^verbatim>\<open>Router.registerRoute\<close>. The handler is loaded from the file by
  \<^verbatim>\<open>loadRouteHandler\<close>, which reads the file system; its result is the argument
  \<open>loaded\<close>, \<^const>\<open>None\<close> when no handler was found. The method returns nothing to its
  caller.
\<close>

definition registerRoute :: "RouteInfo \<Rightarrow> RouteFileHandler option \<Rightarrow> Router \<Rightarrow> Router" where
  "registerRoute routeInfo loaded r =
     (case loaded of
        None \<Rightarrow> r
      | Some handler \<Rightarrow>
          (let methods = getSupportedMethods handler;
               r' = registerRouteMethods routeInfo methods handler r
           in r'\<lparr>registeredRoutes := registeredRoutes r' @
                 [\<lparr>rr_path = ri_path routeInfo, rr_filePath = ri_filePath routeInfo,
                   rr_type = ri_type routeInfo, rr_methods = methods,
                   rr_parameters = ri_parameters routeInfo\<rparr>]\<rparr>))"

text \<open>\<^verbatim>\<open>RouteScanner.fileToRouteInfo\<close>, from the route path of the file.\<close>

definition fileToRouteInfo :: "string \<Rightarrow> string \<Rightarrow> RouteInfo" where
  "fileToRouteInfo routePath filePath =
     \<lparr>ri_pattern = routePath, ri_path = routePath,
      ri_type = RouteScanner_determineRouteType routePath,
      ri_parameters = getRouteParameters routePath, ri_filePath = filePath, ri_method = GET\<rparr>"

text \<open>\<^verbatim>\<open>Router.addRoute\<close>.\<close>

definition addRoute :: "string \<Rightarrow> RouteFileHandler \<Rightarrow> HTTPMethod list \<Rightarrow> Router \<Rightarrow> Router" where
  "addRoute path handler methods r =
     (let routeInfo = \<lparr>ri_pattern = path, ri_path = path, ri_type = addRoute_type path,
                        ri_parameters = getRouteParameters path, ri_filePath = ''manual'',
                        ri_method = GET\<rparr>;
          r' = registerRouteMethods routeInfo methods handler r
      in r'\<lparr>registeredRoutes := registeredRoutes r' @
            [\<lparr>rr_path = path, rr_filePath = ''manual'', rr_type = ri_type routeInfo,
              rr_methods = methods, rr_parameters = ri_parameters routeInfo\<rparr>]\<rparr>)"

text \<open>\<^verbatim>\<open>Router.hasRoute\<close>.\<close>

definition hasRoute :: "Router \<Rightarrow> string \<Rightarrow> bool" where
  "hasRoute r path = (\<exists>route \<in> set (registeredRoutes r). rr_path route = path)"

text \<open>
  Resolution of a request is done by Hono, on the registrations made by \<^verbatim>\<open>app.on\<close>: the
  callbacks of the registrations whose method and path accept the request run in the
  order of registration, and every callback of \<^verbatim>\<open>registerRouteMethod\<close> answers the request
  without passing it on. The route that answers is therefore the first registration
  that accepts the request. Which paths a registered path accepts is decided inside Hono
  and is the parameter \<open>accepts\<close>.
\<close>

definition resolve ::
  "(string \<Rightarrow> string \<Rightarrow> bool) \<Rightarrow> Router \<Rightarrow> HTTPMethod \<Rightarrow> string \<Rightarrow> RouteInfo option" where
  "resolve accepts r method path =
     map_option hr_route
       (find (\<lambda>reg. hr_method reg = method \<and> accepts (hr_path reg) path) (app r))"

section \<open>The matcher of path-to-regexp\<close>

text \<open>
  \<^verbatim>\<open>match\<close> is imported from the package path-to-regexp; the package is not part of the
  repository. The extractor writes custom patterns in parentheses behind a parameter
  name, the syntax of the versions 6 of the package, and this section models
  \<^verbatim>\<open>match(pattern, { decode })(pathname)\<close> of these versions: the pattern is split
  into tokens, the tokens become a regular expression, the expression is executed on the
  path, and the captured groups are decoded and stored under the names of their keys.

  The execution of the regular expression and the decoder belong to the JavaScript run
  time. They are parameters of \<open>matchFn\<close>, so that what is proved about \<open>matchFn\<close> holds for
  every pattern and path. For evaluation they are instantiated by \<open>modelled_exec\<close> and
  \<open>decodeURIComponent\<close> below, which cover the patterns in which every parameter is a
  full segment, named, with the prefix \<^verbatim>\<open>/\<close> and without a modifier, and whose custom
  pattern, if any, is \<^verbatim>\<open>.*\<close> or \<^verbatim>\<open>.+\<close>, on ASCII strings. Outside of that they answer
  \<open>Unsupported\<close>, about which nothing is proved.
\<close>

datatype 'a Outcome = Threw JsError | Unsupported | Ok 'a

datatype LexToken =
  MODIFIER char | ESCAPED_CHAR "char option" | OPEN | CLOSE | NAME string
  | PATTERN string | CHARACTER char | END

text \<open>The characters of a parameter name: digits, letters and the underscore.\<close>

definition name_char :: "char \<Rightarrow> bool" where
  "name_char c =
     (let code = (of_char c :: nat)
      in (48 \<le> code \<and> code \<le> 57) \<or> (65 \<le> code \<and> code \<le> 90)
         \<or> (97 \<le> code \<and> code \<le> 122) \<or> code = 95)"

text \<open>
  The scan of a custom pattern behind an opening parenthesis: \<open>count\<close> is the nesting
  depth, \<open>pat\<close> the pattern read so far and \<open>n\<close> the number of characters read. The
  result is the pattern and the number of characters up to and including the closing
  parenthesis.
\<close>

fun lex_pattern :: "nat \<Rightarrow> string \<Rightarrow> nat \<Rightarrow> string \<Rightarrow> JsError + string \<times> nat" where
  "lex_pattern count pat n [] = Inl (TypeError ''Unbalanced pattern'')"
| "lex_pattern count pat n (c # cs) =
     (if c = CHR 0x5C then
        (case cs of
           [] \<Rightarrow> Inl (TypeError ''Unbalanced pattern'')
         | d # ds \<Rightarrow> lex_pattern count (pat @ [c, d]) (n + 2) ds)
      else if c = CHR '')'' then
        (if count = 1 then
           (if pat = [] then Inl (TypeError ''Missing pattern'') else Inr (pat, n + 1))
         else lex_pattern (count - 1) (pat @ [c]) (n + 1) cs)
      else if c = CHR ''('' then
        (if (case cs of [] \<Rightarrow> True | d # ds \<Rightarrow> d \<noteq> CHR ''?'')
         then Inl (TypeError ''Capturing groups are not allowed'')
         else lex_pattern (count + 1) (pat @ [c]) (n + 1) cs)
      else lex_pattern count (pat @ [c]) (n + 1) cs)"

definition push_token :: "LexToken \<Rightarrow> JsError + LexToken list \<Rightarrow> JsError + LexToken list" where
  "push_token t r = (case r of Inl e \<Rightarrow> Inl e | Inr ts \<Rightarrow> Inr (t # ts))"

text \<open>The lexer; an error is the \<^verbatim>\<open>TypeError\<close> thrown at the first offending character.\<close>

function lexer :: "string \<Rightarrow> JsError + LexToken list" where
  "lexer [] = Inr [END]"
| "lexer (c # cs) =
     (if c = CHR ''*'' \<or> c = CHR ''+'' \<or> c = CHR ''?'' then push_token (MODIFIER c) (lexer cs)
      else if c = CHR 0x5C then
        (case cs of
           [] \<Rightarrow> Inr [ESCAPED_CHAR None, END]
         | d # ds \<Rightarrow> push_token (ESCAPED_CHAR (Some d)) (lexer ds))
      else if c = CHR ''{'' then push_token OPEN (lexer cs)
      else if c = CHR ''}'' then push_token CLOSE (lexer cs)
      else if c = CHR '':'' then
        (let name = takeWhile name_char cs
         in if name = [] then Inl (TypeError ''Missing parameter name'')
            else push_token (NAME name) (lexer (dropWhile name_char cs)))
      else if c = CHR ''('' then
        (if (case cs of [] \<Rightarrow> False | d # ds \<Rightarrow> d = CHR ''?'')
         then Inl (TypeError ''Pattern cannot start with ?'')
         else
           (case lex_pattern 1 [] 0 cs of
              Inl e \<Rightarrow> Inl e
            | Inr (pat, n) \<Rightarrow> push_token (PATTERN pat) (lexer (drop n cs))))
      else push_token (CHARACTER c) (lexer cs))"
  by pat_completeness auto
termination
  by (relation "measure length") (simp_all add: less_Suc_eq_le length_dropWhile_le)

text \<open>A key (a parameter) of the pattern; an unnamed key is numbered.\<close>

datatype KeyName = Named string | Numbered nat

datatype Token =
  Literal string
  | Key (key_name: KeyName) (key_prefix: string) (key_suffix: string)
        (key_pattern: string) (key_modifier: string)

text \<open>The pattern of a parameter without a custom pattern, \<^verbatim>\<open>[^\/#\?]+?\<close>.\<close>

definition defaultPattern :: string where
  "defaultPattern = [CHR ''['', CHR ''^'', CHR 0x5C, CHR ''/'', CHR ''#'', CHR 0x5C, CHR ''?'',
                     CHR '']'', CHR ''+'', CHR ''?'']"

text \<open>\<^verbatim>\<open>result.push(path)\<close> when \<^verbatim>\<open>path\<close> is not empty.\<close>

definition flush_path :: "string \<Rightarrow> Token list \<Rightarrow> Token list" where
  "flush_path path result = (if path = [] then result else result @ [Literal path])"

text \<open>
  \<^verbatim>\<open>tryConsume("MODIFIER") || ""\<close>, with the number of tokens consumed.
\<close>

fun take_modifier :: "LexToken list \<Rightarrow> string \<times> nat" where
  "take_modifier (MODIFIER m # ts) = ([m], 1)"
| "take_modifier ts = ([], 0)"

text \<open>
  \<^verbatim>\<open>consumeText\<close>: the characters of the leading CHARACTER and ESCAPED\_CHAR tokens, with
  the number of tokens consumed. An escape without a character ends the text and is
  consumed.
\<close>

fun consumeText :: "LexToken list \<Rightarrow> string \<times> nat" where
  "consumeText (CHARACTER c # ts) = (case consumeText ts of (s, n) \<Rightarrow> (c # s, n + 1))"
| "consumeText (ESCAPED_CHAR (Some c) # ts) = (case consumeText ts of (s, n) \<Rightarrow> (c # s, n + 1))"
| "consumeText (ESCAPED_CHAR None # ts) = ([], 1)"
| "consumeText ts = ([], 0)"

text \<open>\<^verbatim>\<open>tryConsume("NAME") || ""\<close> and \<^verbatim>\<open>tryConsume("PATTERN") || ""\<close>, likewise.\<close>

fun take_name :: "LexToken list \<Rightarrow> string \<times> nat" where
  "take_name (NAME n # ts) = (n, 1)"
| "take_name ts = ([], 0)"

fun take_pattern :: "LexToken list \<Rightarrow> string \<times> nat" where
  "take_pattern (PATTERN p # ts) = (p, 1)"
| "take_pattern ts = ([], 0)"

text \<open>
  The group in braces, behind the OPEN token: prefix, optional name, optional pattern,
  suffix, the CLOSE token and an optional modifier. The result is the token, the key
  counter and the number of tokens consumed.
\<close>

definition parse_group :: "nat \<Rightarrow> LexToken list \<Rightarrow> JsError + Token \<times> nat \<times> nat" where
  "parse_group key ts =
     (case consumeText ts of (prefix, n1) \<Rightarrow>
       (case take_name (drop n1 ts) of (name, n2) \<Rightarrow>
         (case take_pattern (drop (n1 + n2) ts) of (pat, n3) \<Rightarrow>
           (case consumeText (drop (n1 + n2 + n3) ts) of (suffix, n4) \<Rightarrow>
             (case drop (n1 + n2 + n3 + n4) ts of
                CLOSE # ts5 \<Rightarrow>
                  (case take_modifier ts5 of (modifier, n5) \<Rightarrow>
                     Inr (Key (if name \<noteq> [] then Named name
                               else if pat \<noteq> [] then Numbered key else Named [])
                            prefix suffix
                            (if name \<noteq> [] \<and> pat = [] then defaultPattern else pat)
                            modifier,
                          (if name = [] \<and> pat \<noteq> [] then key + 1 else key),
                          n1 + n2 + n3 + n4 + 1 + n5))
              | _ \<Rightarrow> Inl (TypeError ''Unexpected token, expected CLOSE''))))))"

text \<open>
  The token pushed for a parameter outside braces. It takes the character before it as
  its prefix when that character is a dot or a slash; any other character joins the
  literal text. The result is the array of tokens and the key counter.
\<close>

definition push_key ::
  "string \<Rightarrow> string \<Rightarrow> string \<Rightarrow> string \<Rightarrow> nat \<Rightarrow> string \<Rightarrow> Token list \<Rightarrow> Token list \<times> nat" where
  "push_key char name pat modifier key path result =
     (let is_prefix = (char = ''.'' \<or> char = ''/'' \<or> char = []);
          prefix = (if is_prefix then char else []);
          path' = (if is_prefix then path else path @ char)
      in (flush_path path' result @
            [Key (if name \<noteq> [] then Named name else Numbered key) prefix []
               (if pat \<noteq> [] then pat else defaultPattern) modifier],
          (if name \<noteq> [] then key else key + 1)))"

text \<open>
  The loop of \<^verbatim>\<open>parse\<close>, on the tokens not yet consumed: \<open>result\<close> is the array of
  tokens, \<open>key\<close> the counter of unnamed keys and \<open>path\<close> the literal text collected so
  far.
\<close>

function parse_loop :: "LexToken list \<Rightarrow> Token list \<Rightarrow> nat \<Rightarrow> string \<Rightarrow> JsError + Token list" where
  "parse_loop [] result key path = Inr result"
| "parse_loop (t # ts) result key path =
     (let char = (case t of CHARACTER c \<Rightarrow> [c] | _ \<Rightarrow> []);
          n1 = length char;
          (name, n2) = take_name (drop n1 (t # ts));
          (pat, n3) = take_pattern (drop (n1 + n2) (t # ts))
      in if name \<noteq> [] \<or> pat \<noteq> [] then
           (let (modifier, n4) = take_modifier (drop (n1 + n2 + n3) (t # ts));
                (result', key') = push_key char name pat modifier key path result
            in parse_loop (drop (n1 + n2 + n3 + n4 - 1) ts) result' key' [])
         else if char \<noteq> [] then parse_loop ts result key (path @ char)
         else
           (case t of
              ESCAPED_CHAR (Some c) \<Rightarrow> parse_loop ts result key (path @ [c])
            | ESCAPED_CHAR None \<Rightarrow>
                (case ts of
                   END # r \<Rightarrow> parse_loop (drop 1 ts) (flush_path path result) key []
                 | _ \<Rightarrow> Inl (TypeError ''Unexpected token, expected END''))
            | OPEN \<Rightarrow>
                (case parse_group key ts of
                   Inl e \<Rightarrow> Inl e
                 | Inr (tok, key', n) \<Rightarrow>
                     parse_loop (drop n ts) (flush_path path result @ [tok]) key' [])
            | END \<Rightarrow> parse_loop ts (flush_path path result) key []
            | _ \<Rightarrow> Inl (TypeError ''Unexpected token, expected END'')))"
  by pat_completeness auto
termination
  by (relation "measure (\<lambda>(ts, result, key, path). length ts)") simp_all

definition parse :: "string \<Rightarrow> JsError + Token list" where
  "parse str = (case lexer str of Inl e \<Rightarrow> Inl e | Inr tokens \<Rightarrow> parse_loop tokens [] 0 [])"

text \<open>
  The keys of the expression: the tokens with a pattern, in order. Each is one capturing
  group.
\<close>

definition keys_of :: "Token list \<Rightarrow> Token list" where
  "keys_of tokens =
     filter (\<lambda>t. case t of Literal lit \<Rightarrow> False
                 | Key name prefix suffix pat modifier \<Rightarrow> pat \<noteq> []) tokens"

text \<open>The decimal digits of a number, the property name of a numbered key.\<close>

function decimal :: "nat \<Rightarrow> string" where
  "decimal n =
     (if n < 10 then [char_of (48 + n)] else decimal (n div 10) @ [char_of (48 + n mod 10)])"
  by pat_completeness auto
termination
  by (relation "measure id") simp_all

definition key_name_string :: "KeyName \<Rightarrow> string" where
  "key_name_string name = (case name of Named n \<Rightarrow> n | Numbered k \<Rightarrow> decimal k)"

text \<open>
  \<^verbatim>\<open>s.split(sep)\<close> for a string separator: the pieces between the occurrences of a
  separator that is not empty, and the single characters for the empty separator.
\<close>

function split_pieces :: "string \<Rightarrow> string \<Rightarrow> string \<Rightarrow> string list" where
  "split_pieces sep piece [] = [piece]"
| "split_pieces sep piece (c # cs) =
     (if sep \<noteq> [] \<and> startsWith (c # cs) sep
      then piece # split_pieces sep [] (drop (length sep) (c # cs))
      else split_pieces sep (piece @ [c]) cs)"
  by pat_completeness auto
termination
  by (relation "measure (\<lambda>(sep, piece, s). length s)") auto

definition js_split :: "string \<Rightarrow> string \<Rightarrow> string list" where
  "js_split s sep = (if sep = [] then map (\<lambda>c. [c]) s else split_pieces sep [] s)"

text \<open>\<^verbatim>\<open>params[name] = value\<close> on the entries of an object, in insertion order.\<close>

fun set_property :: "string \<Rightarrow> 'v \<Rightarrow> (string \<times> 'v) list \<Rightarrow> (string \<times> 'v) list" where
  "set_property k v [] = [(k, v)]"
| "set_property k v ((k', v') # entries) =
     (if k = k' then (k, v) # entries else (k', v') # set_property k v entries)"

text \<open>\<^verbatim>\<open>pieces.map(decode)\<close>; the first failing call of the decoder throws.\<close>

fun decode_all :: "(string \<Rightarrow> string Outcome) \<Rightarrow> string list \<Rightarrow> string list Outcome" where
  "decode_all decode [] = Ok []"
| "decode_all decode (piece # pieces) =
     (case decode piece of
        Threw e \<Rightarrow> Threw e
      | Unsupported \<Rightarrow> Unsupported
      | Ok d \<Rightarrow>
          (case decode_all decode pieces of
             Threw e \<Rightarrow> Threw e
           | Unsupported \<Rightarrow> Unsupported
           | Ok ds \<Rightarrow> Ok (d # ds)))"

text \<open>
  The loop over the groups of a match, each with its key: a group that is
  \<^verbatim>\<open>undefined\<close> is skipped; the group of a key with the modifier \<^verbatim>\<open>*\<close> or \<^verbatim>\<open>+\<close> is
  split at the prefix and suffix of the key and stored as the array of the decoded
  pieces; every other group is stored as one decoded string.
\<close>

fun collect_params ::
  "(string \<Rightarrow> string Outcome) \<Rightarrow> (Token \<times> string option) list \<Rightarrow> (string \<times> ParamValue) list
     \<Rightarrow> (string \<times> ParamValue) list Outcome" where
  "collect_params decode [] params = Ok params"
| "collect_params decode ((key, None) # groups) params = collect_params decode groups params"
| "collect_params decode ((Literal lit, Some m) # groups) params =
     collect_params decode groups params"
| "collect_params decode ((Key name prefix suffix pat modifier, Some m) # groups) params =
     (if modifier = ''*'' \<or> modifier = ''+'' then
        (case decode_all decode (js_split m (prefix @ suffix)) of
           Threw e \<Rightarrow> Threw e
         | Unsupported \<Rightarrow> Unsupported
         | Ok pieces \<Rightarrow>
             collect_params decode groups (set_property (key_name_string name) (Arr pieces) params))
      else
        (case decode m of
           Threw e \<Rightarrow> Threw e
         | Unsupported \<Rightarrow> Unsupported
         | Ok d \<Rightarrow>
             collect_params decode groups (set_property (key_name_string name) (Str d) params)))"

text \<open>
  \<^verbatim>\<open>match(str, { decode })(pathname)\<close>. A \<^verbatim>\<open>TypeError\<close> of the parser is thrown.
  \<open>exec\<close> is the execution of the regular expression of the tokens on the path: it
  throws (the \<^verbatim>\<open>SyntaxError\<close> of an invalid custom pattern), finds no match, or yields
  the captured groups, one per key, each a string or \<^verbatim>\<open>undefined\<close>. The result is
  \<^verbatim>\<open>false\<close>, here \<^const>\<open>None\<close>, or the entries of \<^verbatim>\<open>result.params\<close>.
\<close>

definition matchFn ::
  "(Token list \<Rightarrow> string \<Rightarrow> string option list option Outcome) \<Rightarrow> (string \<Rightarrow> string Outcome)
     \<Rightarrow> string \<Rightarrow> string \<Rightarrow> (string \<times> ParamValue) list option Outcome" where
  "matchFn exec decode str pathname =
     (case parse str of
        Inl e \<Rightarrow> Threw e
      | Inr tokens \<Rightarrow>
          (case exec tokens pathname of
             Threw e \<Rightarrow> Threw e
           | Unsupported \<Rightarrow> Unsupported
           | Ok None \<Rightarrow> Ok None
           | Ok (Some groups) \<Rightarrow>
               (case collect_params decode (zip (keys_of tokens) groups) [] of
                  Threw e \<Rightarrow> Threw e
                | Unsupported \<Rightarrow> Unsupported
                | Ok params \<Rightarrow> Ok (Some params))))"

subsection \<open>The modelled regular expressions and decoder\<close>

text \<open>
  The regular expression built from the tokens is \<^verbatim>\<open>^\<close>, the tokens in order,
  \<^verbatim>\<open>[\/#\?]?\<close> and \<^verbatim>\<open>$\<close>, with the flag \<^verbatim>\<open>i\<close>. A text token matches its characters
  without regard to case. A key with the prefix \<^verbatim>\<open>/\<close> is \<^verbatim>\<open>(?:\/(pattern))\<close>.
\<close>

definition delimiter_char :: "char \<Rightarrow> bool" where
  "delimiter_char c = (c = CHR ''/'' \<or> c = CHR ''#'' \<or> c = CHR ''?'')"

text \<open>The dot of a regular expression matches every character but a line terminator.\<close>

definition line_terminator :: "char \<Rightarrow> bool" where
  "line_terminator c = (c = CHR 0x0A \<or> c = CHR 0x0D)"

definition upper_case :: "char \<Rightarrow> char" where
  "upper_case c =
     (let code = (of_char c :: nat)
      in if 97 \<le> code \<and> code \<le> 122 then char_of (code - 32) else c)"

text \<open>The literal \<open>lit\<close> matches at the start of \<open>s\<close>, case-insensitively.\<close>

definition matches_literal :: "string \<Rightarrow> string \<Rightarrow> bool" where
  "matches_literal lit s =
     (length lit \<le> length s \<and> map upper_case (take (length lit) s) = map upper_case lit)"

definition ascii :: "string \<Rightarrow> bool" where
  "ascii s = list_all (\<lambda>c. (of_char c :: nat) < 128) s"

text \<open>The tokens that the model covers: ASCII text and the keys described above.\<close>

definition supported_token :: "Token \<Rightarrow> bool" where
  "supported_token t =
     (case t of
        Literal lit \<Rightarrow> ascii lit
      | Key name prefix suffix pat modifier \<Rightarrow>
          (case name of Named n \<Rightarrow> True | Numbered k \<Rightarrow> False)
          \<and> prefix = ''/'' \<and> suffix = [] \<and> modifier = []
          \<and> (pat = defaultPattern \<or> pat = ''.*'' \<or> pat = ''.+''))"

text \<open>
  The lengths that the group of a key tries at the start of \<open>s\<close>, in the order in which
  backtracking tries them: the lazy \<^verbatim>\<open>[^\/#\?]+?\<close> from one character upwards, as far as
  no delimiter occurs; the greedy \<^verbatim>\<open>.*\<close> and \<^verbatim>\<open>.+\<close> from the longest run without a line
  terminator downwards.
\<close>

definition candidate_lengths :: "string \<Rightarrow> string \<Rightarrow> nat list" where
  "candidate_lengths pat s =
     (if pat = defaultPattern
        then [1 ..< Suc (length (takeWhile (\<lambda>c. \<not> delimiter_char c) s))]
      else if pat = ''.*''
        then rev [0 ..< Suc (length (takeWhile (\<lambda>c. \<not> line_terminator c) s))]
      else if pat = ''.+''
        then rev [1 ..< Suc (length (takeWhile (\<lambda>c. \<not> line_terminator c) s))]
      else [])"

fun first_some :: "('a \<Rightarrow> 'b option) \<Rightarrow> 'a list \<Rightarrow> 'b option" where
  "first_some f [] = None"
| "first_some f (x # xs) = (case f x of Some y \<Rightarrow> Some y | None \<Rightarrow> first_some f xs)"

text \<open>
  \<^verbatim>\<open>re.exec(pathname)\<close> for the expression of the tokens: the first match in backtracking
  order, as the list of the captured groups with the names of their keys, or \<^const>\<open>None\<close>.
  At the end of the tokens the rest of the path must be empty or one delimiter.
\<close>

primrec rx_exec :: "Token list \<Rightarrow> string \<Rightarrow> (string \<times> string) list option" where
  "rx_exec [] s =
     (case s of
        [] \<Rightarrow> Some []
      | c # cs \<Rightarrow> if delimiter_char c \<and> cs = [] then Some [] else None)"
| "rx_exec (t # ts) s =
     (case t of
        Literal txt \<Rightarrow> if matches_literal txt s then rx_exec ts (drop (length txt) s) else None
      | Key name prefix suffix pat modifier \<Rightarrow>
          if matches_literal prefix s then
            first_some
              (\<lambda>n. map_option (\<lambda>captures. (key_name_string name, take n (drop (length prefix) s)) # captures)
                     (rx_exec ts (drop n (drop (length prefix) s))))
              (candidate_lengths pat (drop (length prefix) s))
          else None)"

text \<open>
  \<^verbatim>\<open>decodeURIComponent\<close> on an ASCII string: a percent sign must be followed by two
  hexadecimal digits, else a \<^verbatim>\<open>URIError\<close> is thrown; an escape below 0x80 is the
  character with that code. An escape from 0x80 on starts a multi-byte sequence, which
  the model does not cover.
\<close>

definition hex_value :: "char \<Rightarrow> nat option" where
  "hex_value c =
     (let code = (of_char c :: nat)
      in if 48 \<le> code \<and> code \<le> 57 then Some (code - 48)
         else if 65 \<le> code \<and> code \<le> 70 then Some (code - 55)
         else if 97 \<le> code \<and> code \<le> 102 then Some (code - 87)
         else None)"

fun decodeURIComponent :: "string \<Rightarrow> string Outcome" where
  "decodeURIComponent [] = Ok []"
| "decodeURIComponent (c # cs) =
     (if c = CHR ''%'' then
        (case cs of
           h1 # h2 # rest \<Rightarrow>
             (case (hex_value h1, hex_value h2) of
                (Some a, Some b) \<Rightarrow>
                  if 16 * a + b < 128 then
                    (case decodeURIComponent rest of
                       Ok s \<Rightarrow> Ok (char_of (16 * a + b) # s)
                     | other \<Rightarrow> other)
                  else Unsupported
              | _ \<Rightarrow> Threw (URIError ''URI malformed''))
         | _ \<Rightarrow> Threw (URIError ''URI malformed''))
      else
        (case decodeURIComponent cs of Ok s \<Rightarrow> Ok (c # s) | other \<Rightarrow> other))"

text \<open>
  The execution of the regular expression in the model: the groups of \<^const>\<open>rx_exec\<close>
  for tokens that the model covers and an ASCII path.
\<close>

definition modelled_exec :: "Token list \<Rightarrow> string \<Rightarrow> string option list option Outcome" where
  "modelled_exec tokens pathname =
     (if list_all supported_token tokens \<and> ascii pathname
      then Ok (map_option (map (\<lambda>capture. Some (snd capture))) (rx_exec tokens pathname))
      else Unsupported)"

text \<open>
  \<^verbatim>\<open>match(str, { decode: decodeURIComponent })(pathname)\<close> with the modelled regular
  expressions and decoder.
\<close>

definition pathToRegexp_match :: "string \<Rightarrow> string \<Rightarrow> (string \<times> ParamValue) list option Outcome" where
  "pathToRegexp_match str pathname = matchFn modelled_exec decodeURIComponent str pathname"

section \<open>Parameter extraction (ParameterExtractor)\<close>

text \<open>\<^verbatim>\<open>ParameterExtractor.isVariableSegmentName\<close>.\<close>

definition isVariableSegmentName :: "string \<Rightarrow> string \<Rightarrow> bool" where
  "isVariableSegmentName name routePattern = js_includes routePattern (''[...'' @ name @ '']'')"

text \<open>\<^verbatim>\<open>s.split(sep)\<close> for a separator of one character.\<close>

fun split_on :: "char \<Rightarrow> string \<Rightarrow> string list" where
  "split_on sep [] = [[]]"
| "split_on sep (c # cs) =
     (if c = sep then [] # split_on sep cs
      else (case split_on sep cs of [] \<Rightarrow> [[c]] | x # xs \<Rightarrow> (c # x) # xs))"

text \<open>
  The value stored for one entry of \<^verbatim>\<open>result.params\<close>: for the name of a variable
  segment of the route pattern, and for the name \<^verbatim>\<open>segments\<close>, a string is split at the
  slashes and the empty pieces are dropped; every other value is stored as it is.
\<close>

definition stored_value :: "string \<Rightarrow> string \<Rightarrow> ParamValue \<Rightarrow> ParamValue" where
  "stored_value routePattern key v =
     (if isVariableSegmentName key routePattern \<or> key = ''segments'' then
        (case v of
           Str s \<Rightarrow> Arr (filter (\<lambda>piece. piece \<noteq> []) (split_on (CHR ''/'') s))
         | Arr a \<Rightarrow> Arr a)
      else v)"

text \<open>
  The loop over \<^verbatim>\<open>Object.entries(result.params)\<close>, with the own properties of
  \<^verbatim>\<open>params\<close> as accumulator. The keys of the entries are distinct, so their order does
  not matter. The assignment \<^verbatim>\<open>params[key] = value\<close> to the key \<^verbatim>\<open>__proto__\<close> stores no
  property: it calls the setter inherited from \<^verbatim>\<open>Object.prototype\<close>, which ignores a
  string and makes an array the prototype of \<^verbatim>\<open>params\<close>.
\<close>

fun extract_loop :: "string \<Rightarrow> (string \<times> ParamValue) list \<Rightarrow> RouteParams \<Rightarrow> RouteParams" where
  "extract_loop routePattern [] params = params"
| "extract_loop routePattern ((key, v) # entries) params =
     extract_loop routePattern entries
       (if key = ''__proto__'' then params
        else params(key \<mapsto> stored_value routePattern key v))"

text \<open>
  \<^verbatim>\<open>ParameterExtractor.extractParameters\<close>, for any execution of regular expressions and
  any decoder. An error thrown by the matcher is not caught here.
\<close>

definition extractParametersWith ::
  "(Token list \<Rightarrow> string \<Rightarrow> string option list option Outcome) \<Rightarrow> (string \<Rightarrow> string Outcome)
     \<Rightarrow> string \<Rightarrow> string \<Rightarrow> RouteParams Outcome" where
  "extractParametersWith exec decode urlPath routePattern =
     (case matchFn exec decode (convertToPathToRegexpPattern routePattern) urlPath of
        Threw e \<Rightarrow> Threw e
      | Unsupported \<Rightarrow> Unsupported
      | Ok None \<Rightarrow> Ok Map.empty
      | Ok (Some result_params) \<Rightarrow> Ok (extract_loop routePattern result_params Map.empty))"

text \<open>
  \<^verbatim>\<open>ParameterExtractor.extractParameters\<close> with the modelled regular expressions and
  decoder.
\<close>

definition extractParameters :: "string \<Rightarrow> string \<Rightarrow> RouteParams Outcome" where
  "extractParameters urlPath routePattern =
     extractParametersWith modelled_exec decodeURIComponent urlPath routePattern"

text \<open>\<^verbatim>\<open>ParameterExtractor.matchesPattern\<close>.\<close>

definition matchesPattern :: "string \<Rightarrow> string \<Rightarrow> bool Outcome" where
  "matchesPattern urlPath routePattern =
     (case pathToRegexp_match (convertToPathToRegexpPattern routePattern) urlPath of
        Threw e \<Rightarrow> Threw e
      | Unsupported \<Rightarrow> Unsupported
      | Ok None \<Rightarrow> Ok False
      | Ok (Some result_params) \<Rightarrow> Ok True)"

text \<open>
  A registered path accepts a request path when the extractor's own matcher does; this
  instance of the parameter \<open>accepts\<close> of \<^const>\<open>resolve\<close> is used for the concrete
  evaluations.
\<close>

definition extractor_accepts :: "string \<Rightarrow> string \<Rightarrow> bool" where
  "extractor_accepts registered path = (matchesPattern path registered = Ok True)"

section \<open>Notions used in the statements and proofs\<close>


text \<open>A token that is literal text.\<close>

definition text_token :: "Token \<Rightarrow> bool" where
  "text_token t = (case t of Literal txt \<Rightarrow> True | Key name prefix suffix pat modifier \<Rightarrow> False)"



text \<open>The value is an array, or is a single string.\<close>

definition is_sequence :: "ParamValue \<Rightarrow> bool" where
  "is_sequence v = (case v of Arr a \<Rightarrow> True | Str s \<Rightarrow> False)"

definition is_single_string :: "ParamValue \<Rightarrow> bool" where
  "is_single_string v = (case v of Str s \<Rightarrow> True | Arr a \<Rightarrow> False)"


text \<open>
  A key with a property name, and a key with the modifier \<^verbatim>\<open>*\<close> or \<^verbatim>\<open>+\<close>, whose group
  the matcher stores as an array.
\<close>

definition key_named :: "string \<Rightarrow> Token \<Rightarrow> bool" where
  "key_named k t =
     (case t of
        Literal lit \<Rightarrow> False
      | Key name prefix suffix pat modifier \<Rightarrow> key_name_string name = k)"

definition repeating_key :: "Token \<Rightarrow> bool" where
  "repeating_key t =
     (case t of
        Literal lit \<Rightarrow> False
      | Key name prefix suffix pat modifier \<Rightarrow> modifier = ''*'' \<or> modifier = ''+'')"

definition single_key :: "Token \<Rightarrow> bool" where
  "single_key t = (\<not> repeating_key t)"

text \<open>The keys of a list of tokens that have the property name \<open>k\<close>.\<close>

definition keys_named :: "string \<Rightarrow> Token list \<Rightarrow> Token list" where
  "keys_named k tokens = filter (key_named k) (keys_of tokens)"

text \<open>
  An execution of a regular expression that yields the given groups, and the decoder
  that returns a string without escapes as it is; they stand for what the run time
  yields at one concrete pattern and path.
\<close>

definition exec_yielding ::
  "string option list \<Rightarrow> Token list \<Rightarrow> string \<Rightarrow> string option list option Outcome" where
  "exec_yielding groups tokens pathname = Ok (Some groups)"

definition decode_plain :: "string \<Rightarrow> string Outcome" where
  "decode_plain s = Ok s"

text \<open>The errors that one entry of the configuration pushes, none when it throws.\<close>

definition pushed_errors :: "RouteParams \<Rightarrow> string \<times> ParamValidation \<Rightarrow> ValidationError list" where
  "pushed_errors params entry =
     (case validate_entry params entry of Inl e \<Rightarrow> [] | Inr errors \<Rightarrow> errors)"

text \<open>The \<^verbatim>\<open>RouteInfo\<close> that \<^verbatim>\<open>addRoute\<close> builds for a path.\<close>

definition addRoute_info :: "string \<Rightarrow> RouteInfo" where
  "addRoute_info path =
     \<lparr>ri_pattern = path, ri_path = path, ri_type = addRoute_type path,
      ri_parameters = getRouteParameters path, ri_filePath = ''manual'', ri_method = GET\<rparr>"

chapter \<open>Verified properties\<close>

section \<open>Helper lemmas on the validator\<close>

lemma validate_loop_pushed:
  "validate_loop params config errors = Inr result \<Longrightarrow>
   result = errors @ concat (map (pushed_errors params) config)"
proof (induction config arbitrary: errors)
  case Nil
  then show ?case by simp
next
  case (Cons entry config)
  show ?case
  proof (cases "validate_entry params entry")
    case (Inl e)
    with Cons.prems show ?thesis by simp
  next
    case (Inr pushed)
    with Cons.prems have "validate_loop params config (errors @ pushed) = Inr result"
      by simp
    from Cons.IH [OF this] Inr show ?thesis
      by (simp add: pushed_errors_def)
  qed
qed

lemma pattern_check_paramName:
  "e \<in> set (pattern_check name validation v) \<Longrightarrow> paramName e = name"
  by (auto simp: pattern_check_def split: option.splits ReadValue.splits ParamValue.splits if_splits)

lemma validator_check_paramName:
  "validator_check name validation v = Inr errors \<Longrightarrow> e \<in> set errors \<Longrightarrow> paramName e = name"
  by (auto simp: validator_check_def
      split: option.splits call_result.splits Thrown.splits if_splits)

lemma validator_check_errType:
  "validator_check name validation v = Inr errors \<Longrightarrow> e \<in> set errors \<Longrightarrow>
   errType e = validator_error"
  by (auto simp: validator_check_def
      split: option.splits call_result.splits Thrown.splits if_splits)

lemma pushed_errors_paramName:
  "e \<in> set (pushed_errors params (name, validation)) \<Longrightarrow> paramName e = name"
  by (auto simp: pushed_errors_def validate_entry_def
      split: option.splits sum.splits
      dest: pattern_check_paramName validator_check_paramName)

lemma filter_other_entries:
  "name \<notin> fst ` set config \<Longrightarrow>
   filter (\<lambda>e. paramName e = name) (concat (map (pushed_errors params) config)) = []"
proof (induction config)
  case Nil
  then show ?case by simp
next
  case (Cons entry config)
  obtain n v where entry: "entry = (n, v)" by (cases entry)
  from Cons.prems entry have "n \<noteq> name" by auto
  then have "filter (\<lambda>e. paramName e = name) (pushed_errors params (n, v)) = []"
    by (auto simp: filter_empty_conv dest: pushed_errors_paramName)
  with Cons entry show ?case by simp
qed

lemma pushed_errors_absent:
  "params name = None \<Longrightarrow> name \<notin> set objectPrototypeNames \<Longrightarrow>
   pushed_errors params (name, validation) =
     [\<lparr>paramName = name, errValue = None,
       message = ''Parameter '' @ [CHR 0x27] @ name @ [CHR 0x27] @ '' is required'',
       errType = required_error\<rparr>]"
  by (simp add: pushed_errors_def validate_entry_def read_property_def)

lemma pushed_errors_inherited:
  assumes "params name = None" and "name \<in> set objectPrototypeNames"
    and "e \<in> set (pushed_errors params (name, validation))"
  shows "errType e = validator_error"
proof -
  from assms(1,2) have r: "read_property params name = Some (Inherited name)"
    by (simp add: read_property_def)
  have "pattern_check name validation (Inherited name) = []"
    by (simp add: pattern_check_def split: option.splits)
  with assms(3) r show ?thesis
    by (auto simp: pushed_errors_def validate_entry_def split: sum.splits
        dest: validator_check_errType)
qed

lemma witness_config_result:
  "validateParameters Map.empty
        [(''toString'', \<lparr>pattern = Some (\<lambda>s. False), validator = Some (\<lambda>v. Returns False),
                  errorMessage = None, required = None\<rparr>),
         (''id'', \<lparr>pattern = Some (\<lambda>s. s = ''42''), validator = Some (\<lambda>v. Returns False),
                  errorMessage = Some ''bad id'', required = Some False\<rparr>)]
   = Inr [\<lparr>paramName = ''toString'', errValue = Some (Inherited ''toString''),
            message = ''Parameter '' @ [CHR 0x27] @ ''toString'' @ [CHR 0x27] @ '' failed custom validation'',
            errType = validator_error\<rparr>,
          \<lparr>paramName = ''id'', errValue = None,
            message = ''Parameter '' @ [CHR 0x27] @ ''id'' @ [CHR 0x27] @ '' is required'',
            errType = required_error\<rparr>]"
  by (simp add: validateParameters_def validate_entry_def read_property_def objectPrototypeNames_def
      pattern_check_def validator_check_def message_or_def)

section \<open>Route classification\<close>

text \<open>
  C1. The route type is meant to be the same function of the parameter tokens on every
  path that classifies a route: a pattern with two single-segment tokens and no spread
  is \<open>nested\<close>. The scanner and the utility function return \<open>nested\<close> for
  \<^verbatim>\<open>/users/[id]/posts/[postId]\<close>; the type computed by \<^verbatim>\<open>Router.addRoute\<close> for the same
  pattern is \<open>singleParam\<close>, since it never produces \<open>nested\<close>.
\<close>

theorem addRoute_type_disagrees_on_nested:
  "RouteScanner_determineRouteType ''/users/[id]/posts/[postId]'' = nested
   \<and> determineRouteType ''/users/[id]/posts/[postId]'' = nested
   \<and> addRoute_type ''/users/[id]/posts/[postId]'' = singleParam"
  by (simp add: RouteScanner_determineRouteType_def determineRouteType_def addRoute_type_def
      startsWith_def)

section \<open>Normalisation\<close>

text \<open>
  C7. Normalisation is meant to guarantee a single leading separator. The third
  replacement rewrites a leading slash to a slash and adds none: a route string without a
  leading slash is returned without one, and the string \<^verbatim>\<open>/\<close> is normalised to the empty
  string. Both copies of the function behave alike.
\<close>

theorem normalizePath_adds_no_leading_slash:
  "normalizePath ''api//users/'' = ''api/users''
   \<and> ParameterExtractor_normalizePath ''api//users/'' = ''api/users''
   \<and> normalizePath ''/'' = ''''
   \<and> ParameterExtractor_normalizePath ''/'' = ''''"
  by (simp add: normalizePath_def ParameterExtractor_normalizePath_def strip_trailing_slash_def
      replace_leading_slash_def)

section \<open>Validation\<close>

text \<open>
  C5, as the code has it. A rule has no flag that makes its parameter optional. For every
  declared rule whose parameter is not a property of the params object, whatever the
  rule contains and whenever validation returns: if the name is not one that every
  object inherits from \<^verbatim>\<open>Object.prototype\<close>, the read yields \<^verbatim>\<open>undefined\<close> and
  validation emits exactly one error for that parameter, of type \<open>required\<close>, so that
  neither the pattern nor the predicate contributes an error for it; if the name is an
  inherited one, such as \<^verbatim>\<open>toString\<close>, the read yields the inherited value and the
  only errors for that parameter are those of the predicate.
\<close>

theorem absent_value_gives_required_error_only:
  assumes "distinct (map fst validationConfig)"
    and "(name, validation) \<in> set validationConfig"
    and "params name = None"
    and "validateParameters params validationConfig = Inr errors"
  shows "(name \<notin> set objectPrototypeNames \<longrightarrow>
            filter (\<lambda>e. paramName e = name) errors =
              [\<lparr>paramName = name, errValue = None,
                message = ''Parameter '' @ [CHR 0x27] @ name @ [CHR 0x27] @ '' is required'',
                errType = required_error\<rparr>])
       \<and> (name \<in> set objectPrototypeNames \<longrightarrow>
            list_all (\<lambda>e. errType e = validator_error)
              (filter (\<lambda>e. paramName e = name) errors))"
proof -
  from assms(2) obtain xs ys where split: "validationConfig = xs @ (name, validation) # ys"
    by (auto dest: split_list)
  with assms(1) have "name \<notin> fst ` set xs" and "name \<notin> fst ` set ys"
    by auto
  then have others: "filter (\<lambda>e. paramName e = name) (concat (map (pushed_errors params) xs)) = []"
    "filter (\<lambda>e. paramName e = name) (concat (map (pushed_errors params) ys)) = []"
    by (simp_all add: filter_other_entries)
  from assms(4) have "errors = concat (map (pushed_errors params) validationConfig)"
    using validate_loop_pushed [of params validationConfig "[]" errors]
    by (simp add: validateParameters_def)
  with split others have own: "filter (\<lambda>e. paramName e = name) errors =
      filter (\<lambda>e. paramName e = name) (pushed_errors params (name, validation))"
    by simp
  show ?thesis
  proof (intro conjI impI)
    assume "name \<notin> set objectPrototypeNames"
    with assms(3) own show "filter (\<lambda>e. paramName e = name) errors =
              [\<lparr>paramName = name, errValue = None,
                message = ''Parameter '' @ [CHR 0x27] @ name @ [CHR 0x27] @ '' is required'',
                errType = required_error\<rparr>]"
      by (simp add: pushed_errors_absent)
  next
    assume "name \<in> set objectPrototypeNames"
    with assms(3) own show "list_all (\<lambda>e. errType e = validator_error)
              (filter (\<lambda>e. paramName e = name) errors)"
      by (auto simp: list_all_iff dest: pushed_errors_inherited)
  qed
qed

theorem absent_value_gives_required_error_only_witness:
  "filter (\<lambda>e. paramName e = ''id'')
     [\<lparr>paramName = ''toString'', errValue = Some (Inherited ''toString''),
            message = ''Parameter '' @ [CHR 0x27] @ ''toString'' @ [CHR 0x27] @ '' failed custom validation'',
            errType = validator_error\<rparr>,
          \<lparr>paramName = ''id'', errValue = None,
            message = ''Parameter '' @ [CHR 0x27] @ ''id'' @ [CHR 0x27] @ '' is required'',
            errType = required_error\<rparr>] =
   [\<lparr>paramName = ''id'', errValue = None,
     message = ''Parameter '' @ [CHR 0x27] @ ''id'' @ [CHR 0x27] @ '' is required'',
     errType = required_error\<rparr>]
   \<and> list_all (\<lambda>e. errType e = validator_error)
     (filter (\<lambda>e. paramName e = ''toString'')
       [\<lparr>paramName = ''toString'', errValue = Some (Inherited ''toString''),
            message = ''Parameter '' @ [CHR 0x27] @ ''toString'' @ [CHR 0x27] @ '' failed custom validation'',
            errType = validator_error\<rparr>,
          \<lparr>paramName = ''id'', errValue = None,
            message = ''Parameter '' @ [CHR 0x27] @ ''id'' @ [CHR 0x27] @ '' is required'',
            errType = required_error\<rparr>])"
proof -
  have d: "distinct (map fst
        [(''toString'', \<lparr>pattern = Some (\<lambda>s. False), validator = Some (\<lambda>v. Returns False),
                  errorMessage = None, required = None\<rparr>),
         (''id'', \<lparr>pattern = Some (\<lambda>s. s = ''42''), validator = Some (\<lambda>v. Returns False),
                  errorMessage = Some ''bad id'', required = Some False\<rparr>)])"
    by simp
  have n1: "''id'' \<notin> set objectPrototypeNames" by (simp add: objectPrototypeNames_def)
  have n2: "''toString'' \<in> set objectPrototypeNames" by (simp add: objectPrototypeNames_def)
  from absent_value_gives_required_error_only [OF d _ _ witness_config_result, of "''id''" _] n1
  have 1: "filter (\<lambda>e. paramName e = ''id'')
     [\<lparr>paramName = ''toString'', errValue = Some (Inherited ''toString''),
            message = ''Parameter '' @ [CHR 0x27] @ ''toString'' @ [CHR 0x27] @ '' failed custom validation'',
            errType = validator_error\<rparr>,
          \<lparr>paramName = ''id'', errValue = None,
            message = ''Parameter '' @ [CHR 0x27] @ ''id'' @ [CHR 0x27] @ '' is required'',
            errType = required_error\<rparr>] =
   [\<lparr>paramName = ''id'', errValue = None,
     message = ''Parameter '' @ [CHR 0x27] @ ''id'' @ [CHR 0x27] @ '' is required'',
     errType = required_error\<rparr>]"
    by simp
  from absent_value_gives_required_error_only [OF d _ _ witness_config_result, of "''toString''" _] n2
  have 2: "list_all (\<lambda>e. errType e = validator_error)
     (filter (\<lambda>e. paramName e = ''toString'')
       [\<lparr>paramName = ''toString'', errValue = Some (Inherited ''toString''),
            message = ''Parameter '' @ [CHR 0x27] @ ''toString'' @ [CHR 0x27] @ '' failed custom validation'',
            errType = validator_error\<rparr>,
          \<lparr>paramName = ''id'', errValue = None,
            message = ''Parameter '' @ [CHR 0x27] @ ''id'' @ [CHR 0x27] @ '' is required'',
            errType = required_error\<rparr>])"
    by simp
  from 1 2 show ?thesis by (rule conjI)
qed

text \<open>
  C5, as the specification states it, fails: a rule that carries \<^verbatim>\<open>required: false\<close> and
  whose parameter is absent still yields a \<open>required\<close> error.
\<close>

theorem required_false_still_reported:
  "validateParameters Map.empty
     [(''id'', \<lparr>pattern = None, validator = None, errorMessage = None, required = Some False\<rparr>)] =
   Inr [\<lparr>paramName = ''id'', errValue = None,
     message = ''Parameter '' @ [CHR 0x27] @ ''id'' @ [CHR 0x27] @ '' is required'',
     errType = required_error\<rparr>]"
  by (simp add: validateParameters_def validate_entry_def read_property_def objectPrototypeNames_def)

text \<open>
  C6. Validation evaluates every declared rule, in the order of the configuration, and
  collects every violation: on the configuration below, the pattern and the predicate
  of \<^verbatim>\<open>id\<close>, the throwing predicate of \<^verbatim>\<open>slug\<close> and the absent \<^verbatim>\<open>page\<close> each
  contribute their error. It is meant never to propagate an exception of a custom
  predicate, but the \<^verbatim>\<open>catch\<close> block builds its message from the thrown value with a
  template literal: for a thrown value that cannot be converted to a string, such as a
  symbol, the conversion throws a \<^verbatim>\<open>TypeError\<close>, which leaves
  \<^verbatim>\<open>validateParameters\<close>, and the errors collected so far are lost.
\<close>

theorem unprintable_thrown_value_escapes:
  "validateParameters [''id'' \<mapsto> Str ''abc'', ''slug'' \<mapsto> Str ''x'']
     [(''id'', \<lparr>pattern = Some (\<lambda>s. s = ''42''), validator = Some (\<lambda>v. Returns False),
               errorMessage = None, required = None\<rparr>),
      (''slug'', \<lparr>pattern = None, validator = Some (\<lambda>v. Throws Unprintable),
               errorMessage = None, required = None\<rparr>),
      (''page'', \<lparr>pattern = None, validator = None, errorMessage = None, required = None\<rparr>)] =
   Inl (TypeError ''Cannot convert the thrown value to a string'')
   \<and> validateParameters [''id'' \<mapsto> Str ''abc'', ''slug'' \<mapsto> Str ''x'']
     [(''id'', \<lparr>pattern = Some (\<lambda>s. s = ''42''), validator = Some (\<lambda>v. Returns False),
               errorMessage = None, required = None\<rparr>),
      (''slug'', \<lparr>pattern = None, validator = Some (\<lambda>v. Throws (Printable ''Error: boom'')),
               errorMessage = None, required = None\<rparr>),
      (''page'', \<lparr>pattern = None, validator = None, errorMessage = None, required = None\<rparr>)] =
   Inr [\<lparr>paramName = ''id'', errValue = Some (Own (Str ''abc'')),
          message = ''Parameter '' @ [CHR 0x27] @ ''id'' @ [CHR 0x27] @ '' does not match required pattern'',
          errType = pattern_error\<rparr>,
        \<lparr>paramName = ''id'', errValue = Some (Own (Str ''abc'')),
          message = ''Parameter '' @ [CHR 0x27] @ ''id'' @ [CHR 0x27] @ '' failed custom validation'',
          errType = validator_error\<rparr>,
        \<lparr>paramName = ''slug'', errValue = Some (Own (Str ''x'')),
          message = ''Validation error for parameter '' @ [CHR 0x27] @ ''slug'' @ [CHR 0x27] @ '': Error: boom'',
          errType = validator_error\<rparr>,
        \<lparr>paramName = ''page'', errValue = None,
          message = ''Parameter '' @ [CHR 0x27] @ ''page'' @ [CHR 0x27] @ '' is required'',
          errType = required_error\<rparr>]"
  by (simp add: validateParameters_def validate_entry_def read_property_def pattern_check_def
      validator_check_def message_or_def objectPrototypeNames_def)

section \<open>Helper lemmas on the matcher\<close>
















section \<open>Anchoring of the match\<close>




section \<open>Extraction\<close>

lemma keys_of_text_only: "list_all text_token tokens \<Longrightarrow> keys_of tokens = []"
  by (induction tokens) (auto simp: keys_of_def text_token_def split: Token.splits)

lemma users_tokens: "parse (convertToPathToRegexpPattern ''/users'') = Inr [Literal ''/users'']"
  by code_simp

text \<open>
  C10. \<^verbatim>\<open>extractParameters\<close> returns the empty mapping when the path does not match the
  pattern, and also when a pattern without parameters matches the path; only
  \<^verbatim>\<open>matchesPattern\<close> tells the two apart.
\<close>

theorem extractParameters_empty_for_no_match_and_for_no_parameters:
  "(matchesPattern urlPath routePattern = Ok False
      \<longrightarrow> extractParameters urlPath routePattern = Ok Map.empty)
   \<and> (matchesPattern urlPath routePattern = Ok True
       \<and> parse (convertToPathToRegexpPattern routePattern) = Inr tokens
       \<and> list_all text_token tokens
      \<longrightarrow> extractParameters urlPath routePattern = Ok Map.empty)"
proof (intro conjI impI)
  assume "matchesPattern urlPath routePattern = Ok False"
  then show "extractParameters urlPath routePattern = Ok Map.empty"
    by (auto simp: matchesPattern_def extractParameters_def extractParametersWith_def
        pathToRegexp_match_def split: Outcome.splits option.splits)
next
  assume h: "matchesPattern urlPath routePattern = Ok True
       \<and> parse (convertToPathToRegexpPattern routePattern) = Inr tokens
       \<and> list_all text_token tokens"
  then obtain entries where
    m: "pathToRegexp_match (convertToPathToRegexpPattern routePattern) urlPath = Ok (Some entries)"
    by (auto simp: matchesPattern_def split: Outcome.splits option.splits)
  from h have "keys_of tokens = []"
    by (simp add: keys_of_text_only)
  with m h have "entries = []"
    by (auto simp: pathToRegexp_match_def matchFn_def split: Outcome.splits option.splits)
  with m show "extractParameters urlPath routePattern = Ok Map.empty"
    by (simp add: extractParameters_def extractParametersWith_def pathToRegexp_match_def)
qed

text \<open>
  The theorem of C10 at the pattern \<^verbatim>\<open>/users\<close>: the paths \<^verbatim>\<open>/posts\<close>, which does not
  match, and \<^verbatim>\<open>/users\<close>, which matches, give the same result.
\<close>

theorem extractParameters_empty_witness:
  "matchesPattern ''/posts'' ''/users'' = Ok False
   \<and> extractParameters ''/posts'' ''/users'' = Ok Map.empty
   \<and> matchesPattern ''/users'' ''/users'' = Ok True
   \<and> extractParameters ''/users'' ''/users'' = Ok Map.empty"
proof -
  have f: "matchesPattern ''/posts'' ''/users'' = Ok False" by code_simp
  have t: "matchesPattern ''/users'' ''/users'' = Ok True" by code_simp
  have l: "list_all text_token [Literal ''/users'']" by (simp add: text_token_def)
  from extractParameters_empty_for_no_match_and_for_no_parameters [of "''/posts''" "''/users''"] f
  have 1: "extractParameters ''/posts'' ''/users'' = Ok Map.empty" by blast
  from extractParameters_empty_for_no_match_and_for_no_parameters
    [of "''/users''" "''/users''" "[Literal ''/users'']"] t users_tokens l
  have 2: "extractParameters ''/users'' ''/users'' = Ok Map.empty" by blast
  from f t 1 2 show ?thesis by simp
qed

lemma set_property_subset: "set (set_property k v entries) \<subseteq> insert (k, v) (set entries)"
proof (induction entries)
  case Nil
  then show ?case by simp
next
  case (Cons e entries)
  obtain k' v' where e: "e = (k', v')" by (cases e)
  with Cons show ?case by (cases "k = k'") auto
qed

lemma collect_params_kinds:
  assumes "collect_params decode groups params = Ok entries"
    and "\<forall>g \<in> set groups. fst g \<in> K"
    and "\<forall>e \<in> set params. \<exists>t \<in> K. key_named (fst e) t
            \<and> (if repeating_key t then is_sequence (snd e) else is_single_string (snd e))"
  shows "\<forall>e \<in> set entries. \<exists>t \<in> K. key_named (fst e) t
            \<and> (if repeating_key t then is_sequence (snd e) else is_single_string (snd e))"
  using assms
proof (induction decode groups params rule: collect_params.induct)
  case (1 decode params)
  then show ?case by simp
next
  case (2 decode key groups params)
  then show ?case by simp
next
  case (3 decode lit m groups params)
  then show ?case by simp
next
  case (4 decode name prefix suffix pat modifier m groups params)
  let ?t = "Key name prefix suffix pat modifier"
  from "4.prems"(2) have tK: "?t \<in> K" and rest: "\<forall>g \<in> set groups. fst g \<in> K"
    by simp_all
  show ?case
  proof (cases "modifier = ''*'' \<or> modifier = ''+''")
    case True
    with "4.prems"(1) obtain pieces where
      d: "decode_all decode (js_split m (prefix @ suffix)) = Ok pieces"
      and c: "collect_params decode groups (set_property (key_name_string name) (Arr pieces) params) = Ok entries"
      by (auto split: Outcome.splits)
    have inv: "\<forall>e \<in> set (set_property (key_name_string name) (Arr pieces) params).
        \<exists>t \<in> K. key_named (fst e) t
            \<and> (if repeating_key t then is_sequence (snd e) else is_single_string (snd e))"
    proof
      fix e assume "e \<in> set (set_property (key_name_string name) (Arr pieces) params)"
      with set_property_subset have "e = (key_name_string name, Arr pieces) \<or> e \<in> set params"
        by fastforce
      then show "\<exists>t \<in> K. key_named (fst e) t
            \<and> (if repeating_key t then is_sequence (snd e) else is_single_string (snd e))"
      proof
        assume "e = (key_name_string name, Arr pieces)"
        with True tK show ?thesis
          by (intro bexI [of _ ?t]) (simp_all add: key_named_def repeating_key_def is_sequence_def)
      next
        assume "e \<in> set params"
        with "4.prems"(3) show ?thesis by blast
      qed
    qed
    from "4.IH"(1) [OF True d c rest inv] show ?thesis .
  next
    case False
    with "4.prems"(1) obtain d where
      d: "decode m = Ok d"
      and c: "collect_params decode groups (set_property (key_name_string name) (Str d) params) = Ok entries"
      by (auto split: Outcome.splits)
    have inv: "\<forall>e \<in> set (set_property (key_name_string name) (Str d) params).
        \<exists>t \<in> K. key_named (fst e) t
            \<and> (if repeating_key t then is_sequence (snd e) else is_single_string (snd e))"
    proof
      fix e assume "e \<in> set (set_property (key_name_string name) (Str d) params)"
      with set_property_subset have "e = (key_name_string name, Str d) \<or> e \<in> set params"
        by fastforce
      then show "\<exists>t \<in> K. key_named (fst e) t
            \<and> (if repeating_key t then is_sequence (snd e) else is_single_string (snd e))"
      proof
        assume "e = (key_name_string name, Str d)"
        with False tK show ?thesis
          by (intro bexI [of _ ?t])
            (simp_all add: key_named_def repeating_key_def is_single_string_def)
      next
        assume "e \<in> set params"
        with "4.prems"(3) show ?thesis by blast
      qed
    qed
    from "4.IH"(2) [OF False d c rest inv] show ?thesis .
  qed
qed

lemma matchFn_kinds:
  assumes "matchFn exec decode str pathname = Ok (Some entries)"
    and "parse str = Inr tokens"
    and "(k, x) \<in> set entries"
  shows "\<exists>t \<in> set (keys_named k tokens).
           (if repeating_key t then is_sequence x else is_single_string x)"
proof -
  from assms(1,2) obtain groups where
    c: "collect_params decode (zip (keys_of tokens) groups) [] = Ok entries"
    by (auto simp: matchFn_def split: Outcome.splits option.splits)
  have "\<forall>g \<in> set (zip (keys_of tokens) groups). fst g \<in> set (keys_of tokens)"
    by (auto dest: set_zip_leftD)
  from collect_params_kinds [OF c this] have "\<forall>e \<in> set entries. \<exists>t \<in> set (keys_of tokens).
      key_named (fst e) t
      \<and> (if repeating_key t then is_sequence (snd e) else is_single_string (snd e))"
    by simp
  then have "\<exists>t \<in> set (keys_of tokens). key_named (fst (k, x)) t
      \<and> (if repeating_key t then is_sequence (snd (k, x)) else is_single_string (snd (k, x)))"
    using assms(3) by (rule bspec)
  then obtain t where "t \<in> set (keys_of tokens)" "key_named k t"
    "if repeating_key t then is_sequence x else is_single_string x"
    unfolding fst_conv snd_conv by blast
  then show ?thesis
    by (auto simp: keys_named_def)
qed

lemma extract_loop_source:
  "extract_loop routePattern entries params key = Some v \<Longrightarrow>
   params key = Some v
   \<or> (key \<noteq> ''__proto__'' \<and> (\<exists>x. (key, x) \<in> set entries \<and> v = stored_value routePattern key x))"
proof (induction entries arbitrary: params)
  case Nil
  then show ?case by simp
next
  case (Cons e entries)
  obtain k x where e: "e = (k, x)" by (cases e)
  show ?case
  proof (cases "k = ''__proto__''")
    case True
    with Cons.prems e have "extract_loop routePattern entries params key = Some v" by simp
    from Cons.IH [OF this] show ?thesis by auto
  next
    case False
    with Cons.prems e
    have "extract_loop routePattern entries (params(k \<mapsto> stored_value routePattern k x)) key = Some v"
      by simp
    from Cons.IH [OF this] e False show ?thesis
      by (auto split: if_splits)
  qed
qed

lemma stored_value_special:
  "isVariableSegmentName key routePattern \<or> key = ''segments'' \<Longrightarrow>
   is_sequence (stored_value routePattern key x)"
  by (cases x) (auto simp: stored_value_def is_sequence_def)

lemma stored_value_other:
  "\<not> isVariableSegmentName key routePattern \<Longrightarrow> key \<noteq> ''segments'' \<Longrightarrow>
   stored_value routePattern key x = x"
  by (simp add: stored_value_def)

lemma sequence_not_single: "is_sequence x \<Longrightarrow> \<not> is_single_string x"
  by (cases x) (simp_all add: is_sequence_def is_single_string_def)

lemma files_rest_tokens:
  "parse (convertToPathToRegexpPattern ''/api/users/[id]/files/[...rest]'') =
     Inr [Literal ''/api/users'', Key (Named ''id'') ''/'' [] defaultPattern [],
          Literal ''/files'', Key (Named ''rest'') ''/'' [] ''.*'' []]"
  by code_simp

lemma files_rest_match:
  "pathToRegexp_match (convertToPathToRegexpPattern ''/api/users/[id]/files/[...rest]'')
     ''/api/users/42/files/a/b''
   = Ok (Some [(''id'', Str ''42''), (''rest'', Str ''a/b'')])"
  by code_simp

lemma files_rest_extract:
  "extractParametersWith modelled_exec decodeURIComponent
     ''/api/users/42/files/a/b'' ''/api/users/[id]/files/[...rest]''
   = Ok [''id'' \<mapsto> Str ''42'', ''rest'' \<mapsto> Arr [''a'', ''b'']]"
  using files_rest_match
  by (simp add: extractParametersWith_def pathToRegexp_match_def stored_value_def
      isVariableSegmentName_def startsWith_def)

lemma star_tokens:
  "parse (convertToPathToRegexpPattern ''/a/[x]*'') =
     Inr [Literal ''/a'', Key (Named ''x'') ''/'' [] defaultPattern ''*'']"
  by code_simp

lemma star_match:
  "matchFn (exec_yielding [Some ''b/c'']) decode_plain (convertToPathToRegexpPattern ''/a/[x]*'')
     ''/a/b/c'' = Ok (Some [(''x'', Arr [''b'', ''c''])])"
  by code_simp

lemma star_extract:
  "extractParametersWith (exec_yielding [Some ''b/c'']) decode_plain ''/a/b/c'' ''/a/[x]*''
   = Ok [''x'' \<mapsto> Arr [''b'', ''c'']]"
  using star_match
  by (simp add: extractParametersWith_def stored_value_def isVariableSegmentName_def startsWith_def)

lemma segments_single_match:
  "pathToRegexp_match (convertToPathToRegexpPattern ''/api/[segments]'') ''/api/abc''
   = Ok (Some [(''segments'', Str ''abc'')])"
  by code_simp

lemma products_abc:
  "pathToRegexp_match (convertToPathToRegexpPattern ''/api/products/[...segments]'') ''/api/products/a/b/c''
     = Ok (Some [(''segments'', Str ''a/b/c'')])"
  by code_simp

lemma products_bare:
  "pathToRegexp_match (convertToPathToRegexpPattern ''/api/products/[...segments]'') ''/api/products''
     = Ok None"
  by code_simp

lemma products_slash:
  "pathToRegexp_match (convertToPathToRegexpPattern ''/api/products/[...segments]'') ''/api/products/''
     = Ok (Some [(''segments'', Str [])])"
  by code_simp

lemma extractParameters_unfold:
  "extractParameters urlPath routePattern =
     (case pathToRegexp_match (convertToPathToRegexpPattern routePattern) urlPath of
        Threw e \<Rightarrow> Threw e
      | Unsupported \<Rightarrow> Unsupported
      | Ok None \<Rightarrow> Ok Map.empty
      | Ok (Some result_params) \<Rightarrow> Ok (extract_loop routePattern result_params Map.empty))"
  by (simp add: extractParameters_def extractParametersWith_def pathToRegexp_match_def)

text \<open>
  C4, as the code has it, for every execution of the regular expression and every
  decoder. In every extracted mapping, the value of a parameter whose name occurs as a
  variable segment in the route pattern, and of every parameter named \<^verbatim>\<open>segments\<close>, is
  a sequence of strings. The value of every other parameter is a single string when no
  key of that name carries the modifier \<^verbatim>\<open>*\<close> or \<^verbatim>\<open>+\<close>, and a sequence of strings
  when every key of that name carries one. No value is stored under the name
  \<^verbatim>\<open>__proto__\<close>.
\<close>

theorem extracted_value_kinds:
  assumes "extractParametersWith exec decode urlPath routePattern = Ok params"
    and "parse (convertToPathToRegexpPattern routePattern) = Inr tokens"
    and "params key = Some v"
  shows "key \<noteq> ''__proto__''
    \<and> (isVariableSegmentName key routePattern \<or> key = ''segments'' \<longrightarrow> is_sequence v)
    \<and> (\<not> isVariableSegmentName key routePattern \<and> key \<noteq> ''segments''
         \<and> list_all single_key (keys_named key tokens) \<longrightarrow> is_single_string v)
    \<and> (\<not> isVariableSegmentName key routePattern \<and> key \<noteq> ''segments''
         \<and> list_all repeating_key (keys_named key tokens) \<longrightarrow> is_sequence v)"
proof -
  from assms(1,3) obtain entries where
    m: "matchFn exec decode (convertToPathToRegexpPattern routePattern) urlPath = Ok (Some entries)"
    and p: "params = extract_loop routePattern entries Map.empty"
    by (auto simp: extractParametersWith_def split: Outcome.splits option.splits)
  from p assms(3) have "extract_loop routePattern entries Map.empty key = Some v" by simp
  from extract_loop_source [OF this] obtain x where
    key: "key \<noteq> ''__proto__''" and x: "(key, x) \<in> set entries"
    and v: "v = stored_value routePattern key x"
    by auto
  from matchFn_kinds [OF m assms(2) x] obtain t where
    t: "t \<in> set (keys_named key tokens)"
    and kind: "if repeating_key t then is_sequence x else is_single_string x"
    by blast
  show ?thesis
  proof (intro conjI impI)
    show "key \<noteq> ''__proto__''" by (rule key)
  next
    assume "isVariableSegmentName key routePattern \<or> key = ''segments''"
    then show "is_sequence v" unfolding v by (rule stored_value_special)
  next
    assume h: "\<not> isVariableSegmentName key routePattern \<and> key \<noteq> ''segments''
         \<and> list_all single_key (keys_named key tokens)"
    with t have "\<not> repeating_key t" by (auto simp: list_all_iff single_key_def)
    with kind have "is_single_string x" by simp
    with h v show "is_single_string v" by (simp add: stored_value_other)
  next
    assume h: "\<not> isVariableSegmentName key routePattern \<and> key \<noteq> ''segments''
         \<and> list_all repeating_key (keys_named key tokens)"
    with t have "repeating_key t" by (auto simp: list_all_iff)
    with kind have "is_sequence x" by simp
    with h v show "is_sequence v" by (simp add: stored_value_other)
  qed
qed

text \<open>
  The theorem of C4 at the route \<^verbatim>\<open>/api/users/[id]/files/[...rest]\<close> with the modelled
  regular expressions, and at the route \<^verbatim>\<open>/a/[x]*\<close>, whose expression yields the one
  group \<^verbatim>\<open>b/c\<close> on the path \<^verbatim>\<open>/a/b/c\<close>.
\<close>

theorem extracted_value_kinds_witness:
  "extractParameters ''/api/users/42/files/a/b'' ''/api/users/[id]/files/[...rest]''
     = Ok [''id'' \<mapsto> Str ''42'', ''rest'' \<mapsto> Arr [''a'', ''b'']]
   \<and> is_single_string (Str ''42'') \<and> is_sequence (Arr [''a'', ''b''])
   \<and> extractParametersWith (exec_yielding [Some ''b/c'']) decode_plain ''/a/b/c'' ''/a/[x]*''
     = Ok [''x'' \<mapsto> Arr [''b'', ''c'']]
   \<and> is_sequence (Arr [''b'', ''c''])"
proof -
  have s: "list_all single_key (keys_named ''id''
      [Literal ''/api/users'', Key (Named ''id'') ''/'' [] defaultPattern [],
       Literal ''/files'', Key (Named ''rest'') ''/'' [] ''.*'' []])"
    by (simp add: keys_named_def keys_of_def key_named_def key_name_string_def single_key_def
        repeating_key_def defaultPattern_def)
  have r: "list_all repeating_key (keys_named ''x''
      [Literal ''/a'', Key (Named ''x'') ''/'' [] defaultPattern ''*''])"
    by (simp add: keys_named_def keys_of_def key_named_def key_name_string_def repeating_key_def
        defaultPattern_def)
  from extracted_value_kinds [OF files_rest_extract files_rest_tokens, of "''id''" "Str ''42''"] s
  have 1: "is_single_string (Str ''42'')"
    by (simp add: isVariableSegmentName_def startsWith_def)
  from extracted_value_kinds [OF files_rest_extract files_rest_tokens, of "''rest''" "Arr [''a'', ''b'']"]
  have 2: "is_sequence (Arr [''a'', ''b''])"
    by (simp add: isVariableSegmentName_def startsWith_def)
  from extracted_value_kinds [OF star_extract star_tokens, of "''x''" "Arr [''b'', ''c'']"] r
  have 3: "is_sequence (Arr [''b'', ''c''])"
    by (simp add: isVariableSegmentName_def startsWith_def)
  from 1 2 3 files_rest_extract star_extract show ?thesis
    by (simp add: extractParameters_def)
qed

text \<open>
  C4, as the specification states it, fails: the single parameter of \<^verbatim>\<open>/api/[segments]\<close>
  is extracted as a sequence, because of its name.
\<close>

theorem single_parameter_named_segments_is_sequence:
  "extractParameters ''/api/abc'' ''/api/[segments]'' = Ok [''segments'' \<mapsto> Arr [''abc'']]"
  using segments_single_match
  by (simp add: extractParameters_def extractParametersWith_def pathToRegexp_match_def
      stored_value_def isVariableSegmentName_def)

text \<open>
  C3, as the code has it. For the pattern \<^verbatim>\<open>/api/products/[...segments]\<close> the path
  \<^verbatim>\<open>/api/products/a/b/c\<close> matches and binds \<^verbatim>\<open>segments\<close> to the sequence a, b, c, and
  the path \<^verbatim>\<open>/api/products\<close> does not match. The path \<^verbatim>\<open>/api/products/\<close>, with no
  segment behind the separator, matches and binds \<^verbatim>\<open>segments\<close> to the empty sequence.
\<close>

theorem spread_binds_sequence_possibly_empty:
  "extractParameters ''/api/products/a/b/c'' ''/api/products/[...segments]''
     = Ok [''segments'' \<mapsto> Arr [''a'', ''b'', ''c'']]
   \<and> matchesPattern ''/api/products'' ''/api/products/[...segments]'' = Ok False
   \<and> extractParameters ''/api/products'' ''/api/products/[...segments]'' = Ok Map.empty
   \<and> matchesPattern ''/api/products/'' ''/api/products/[...segments]'' = Ok True
   \<and> extractParameters ''/api/products/'' ''/api/products/[...segments]''
     = Ok [''segments'' \<mapsto> Arr []]"
  by (simp add: extractParameters_unfold matchesPattern_def products_abc products_bare products_slash
      stored_value_def)

text \<open>
  C3, as the specification states it, fails: zero remaining segments are not always a
  non-match.
\<close>

theorem spread_matches_zero_segments:
  "matchesPattern ''/api/products/'' ''/api/products/[...segments]'' = Ok True
   \<and> extractParameters ''/api/products/'' ''/api/products/[...segments]''
     = Ok [''segments'' \<mapsto> Arr []]"
  by (simp add: extractParameters_unfold matchesPattern_def products_slash stored_value_def)

section \<open>Registration\<close>

lemma registerRouteMethods_registeredRoutes:
  "registeredRoutes (registerRouteMethods routeInfo methods handler r) = registeredRoutes r"
  by (induction methods arbitrary: r) (simp_all add: registerRouteMethod_def)

lemma registerRouteMethods_app:
  "map hr_path (app (registerRouteMethods routeInfo methods handler r)) =
     map hr_path (app r) @ replicate (length methods) (convertToHonoPath (ri_path routeInfo))"
proof (induction methods arbitrary: r)
  case Nil
  then show ?case by simp
next
  case (Cons m methods)
  show ?case
    by (simp add: Cons.IH registerRouteMethod_def replicate_app_Cons_same)
qed

text \<open>
  C2, as the code has it. No route string is rejected: the conversion returns a pattern
  string for every input, and registration, by \<^verbatim>\<open>addRoute\<close> or by \<^verbatim>\<open>registerRoute\<close> once a
  handler was loaded, adds the route to the registry and registers the converted path
  with Hono, whatever the route string is.
\<close>

theorem every_route_string_is_registered:
  "hasRoute (addRoute path handler methods r) path
   \<and> hasRoute (registerRoute (fileToRouteInfo path filePath) (Some handler) r) path
   \<and> map hr_path (app (addRoute path handler methods r)) =
       map hr_path (app r) @ replicate (length methods) (convertToPathToRegexpPattern path)"
  by (simp add: hasRoute_def addRoute_def registerRoute_def fileToRouteInfo_def Let_def
      registerRouteMethods_app convertToHonoPath_def)

text \<open>
  C2, as the specification states it, fails: a spread token followed by a further
  segment, a duplicate parameter name and an unterminated bracket are each converted
  without error and registered.
\<close>

theorem malformed_patterns_are_registered:
  "convertToPathToRegexpPattern ''/files/[...rest]/meta'' = ''/files/:rest(.*)/meta''
   \<and> hasRoute (addRoute ''/files/[...rest]/meta'' ((=) GET) [GET] newRouter) ''/files/[...rest]/meta''
   \<and> convertToPathToRegexpPattern ''/a/[id]/b/[id]'' = ''/a/:id/b/:id''
   \<and> hasRoute (addRoute ''/a/[id]/b/[id]'' ((=) GET) [GET] newRouter) ''/a/[id]/b/[id]''
   \<and> convertToPathToRegexpPattern ''/users/[id'' = ''/users/[id''
   \<and> hasRoute (addRoute ''/users/[id'' ((=) GET) [GET] newRouter) ''/users/[id''"
  by (simp add: hasRoute_def addRoute_def Let_def convertToPathToRegexpPattern_def
      ParameterExtractor_normalizePath_def strip_trailing_slash_def replace_leading_slash_def
      replace_trailing_star_def startsWith_def)

section \<open>Resolution\<close>

text \<open>
  C9, as the code has it. Of two routes registered for the same method, the one
  registered first answers every path that it accepts; the one registered second
  answers only the paths that the first does not accept. Literal routes have no
  precedence over parameterized routes.
\<close>

theorem resolve_first_registered_wins:
  "(accepts (convertToHonoPath first) path
      \<longrightarrow> resolve accepts (addRoute second h2 [m] (addRoute first h1 [m] newRouter)) m path
            = Some (addRoute_info first))
   \<and> (\<not> accepts (convertToHonoPath first) path \<and> accepts (convertToHonoPath second) path
      \<longrightarrow> resolve accepts (addRoute second h2 [m] (addRoute first h1 [m] newRouter)) m path
            = Some (addRoute_info second))"
  by (simp add: resolve_def addRoute_def Let_def registerRouteMethod_def newRouter_def addRoute_info_def)

text \<open>
  The theorem of C9 with \<^verbatim>\<open>/api/users/me\<close> registered before \<^verbatim>\<open>/api/users/[id]\<close>: the
  path \<^verbatim>\<open>/api/users/me\<close> resolves to the literal route.
\<close>

theorem resolve_first_registered_wins_witness:
  "resolve extractor_accepts
     (addRoute ''/api/users/[id]'' ((=) GET) [GET] (addRoute ''/api/users/me'' ((=) GET) [GET] newRouter))
     GET ''/api/users/me'' = Some (addRoute_info ''/api/users/me'')
   \<and> ri_type (addRoute_info ''/api/users/me'') = simple"
proof -
  have a: "extractor_accepts (convertToHonoPath ''/api/users/me'') ''/api/users/me''"
    by code_simp
  have t: "ri_type (addRoute_info ''/api/users/me'') = simple"
    by code_simp
  from resolve_first_registered_wins
    [of extractor_accepts "''/api/users/me''" "''/api/users/me''" "''/api/users/[id]''" "(=) GET" GET "(=) GET"] a
  have "resolve extractor_accepts
     (addRoute ''/api/users/[id]'' ((=) GET) [GET] (addRoute ''/api/users/me'' ((=) GET) [GET] newRouter))
     GET ''/api/users/me'' = Some (addRoute_info ''/api/users/me'')"
    by blast
  then show ?thesis using t by simp
qed

text \<open>
  C9, as the specification states it, fails: with \<^verbatim>\<open>/api/users/[id]\<close> registered before
  \<^verbatim>\<open>/api/users/me\<close>, the path \<^verbatim>\<open>/api/users/me\<close> resolves to the parameterized route.
\<close>

theorem parameterized_route_registered_first_wins:
  "map_option ri_path
     (resolve extractor_accepts
        (addRoute ''/api/users/me'' ((=) GET) [GET] (addRoute ''/api/users/[id]'' ((=) GET) [GET] newRouter))
        GET ''/api/users/me'') = Some ''/api/users/[id]''
   \<and> map_option ri_type
     (resolve extractor_accepts
        (addRoute ''/api/users/me'' ((=) GET) [GET] (addRoute ''/api/users/[id]'' ((=) GET) [GET] newRouter))
        GET ''/api/users/me'') = Some singleParam"
  by code_simp

end
